theory Spec2Isabelle
  imports Complex_Main
begin

section \<open>The file-upload component of label-data-organizer-frontend\<close>

text \<open>
  A shallow embedding of \<^verbatim>\<open>src/components/FileUpload.jsx\<close>: the React state of the
  \<^verbatim>\<open>FileUpload\<close> component, the validator \<^verbatim>\<open>validateAndSetFile\<close> and the
  asynchronous submit handler \<^verbatim>\<open>handleUpload\<close>. State setters become record updates
  applied in program order; exceptions are values; what the browser, the network and
  \<^verbatim>\<open>JSON.parse\<close> do is a parameter of the run.
\<close>

subsection \<open>The pattern \<^verbatim>\<open>/filename="?(.+)"?/i\<close>\<close>

text \<open>
  The pattern of line 114 is a sequence of single-character atoms, each under a greedy
  quantifier, one of them inside capture group 1. A header value is a byte string, so
  a character is a \<^typ>\<open>char\<close>.
\<close>

datatype atom = Lit char | AnyChar

datatype quant = Once | Optional | OneOrMore

datatype piece = Piece atom quant bool

text \<open>
  Flag \<^verbatim>\<open>i\<close>: two characters match when their upper-case forms agree. On bytes the
  upper-case form moves \<^verbatim>\<open>a-z\<close> and the Latin-1 letters \<^verbatim>\<open>0xE0-0xFE\<close> (without
  \<^verbatim>\<open>0xF7\<close>) down by 32; the upper-case forms of \<^verbatim>\<open>0xB5\<close> and \<^verbatim>\<open>0xFF\<close> lie outside
  the bytes and are shared with no other byte, so they are left in place.
\<close>

definition canonicalize :: "char \<Rightarrow> char" where
  "canonicalize c =
     (let n = of_char c :: nat in
      if (97 \<le> n \<and> n \<le> 122) \<or> (224 \<le> n \<and> n \<le> 254 \<and> n \<noteq> 247)
      then char_of (n - 32) else c)"

text \<open>The dot matches every character but a line terminator (LF and CR among the bytes).\<close>

definition line_terminator :: "char \<Rightarrow> bool" where
  "line_terminator c \<longleftrightarrow> c = CHR 0x0A \<or> c = CHR 0x0D"

fun atom_matches :: "atom \<Rightarrow> char \<Rightarrow> bool" where
  "atom_matches (Lit a) c = (canonicalize a = canonicalize c)"
| "atom_matches AnyChar c = (\<not> line_terminator c)"

text \<open>A character consumed by a piece of group 1 is put in front of the capture.\<close>

definition capture :: "bool \<Rightarrow> char \<Rightarrow> string \<Rightarrow> string" where
  "capture g c r = (if g then c # r else r)"

text \<open>
  Backtracking match of the pattern at the start of the input; the result is the text of
  group 1. A greedy quantifier first takes the character and only when the rest of the
  pattern then fails gives it back.
\<close>

fun match_here :: "piece list \<Rightarrow> string \<Rightarrow> string option" where
  "match_here [] s = Some []"
| "match_here (Piece a Once g # ps) [] = None"
| "match_here (Piece a Once g # ps) (c # cs) =
     (if atom_matches a c then map_option (capture g c) (match_here ps cs) else None)"
| "match_here (Piece a Optional g # ps) [] = match_here ps []"
| "match_here (Piece a Optional g # ps) (c # cs) =
     (if atom_matches a c
      then (case match_here ps cs of
              Some r \<Rightarrow> Some (capture g c r)
            | None \<Rightarrow> match_here ps (c # cs))
      else match_here ps (c # cs))"
| "match_here (Piece a OneOrMore g # ps) [] = None"
| "match_here (Piece a OneOrMore g # ps) (c # cs) =
     (if atom_matches a c
      then (case match_here (Piece a OneOrMore g # ps) cs of
              Some r \<Rightarrow> Some (capture g c r)
            | None \<Rightarrow> map_option (capture g c) (match_here ps cs))
      else None)"

text \<open>
  \<^verbatim>\<open>String.prototype.match\<close> with a pattern without flag \<^verbatim>\<open>g\<close>: the first start position,
  from the left, at which the pattern matches. \<open>None\<close> is \<^verbatim>\<open>null\<close>; otherwise the match
  array has two entries, the match and group 1, of which the code reads group 1.
\<close>

fun js_match :: "piece list \<Rightarrow> string \<Rightarrow> string option" where
  "js_match ps [] = match_here ps []"
| "js_match ps (c # cs) =
     (case match_here ps (c # cs) of Some r \<Rightarrow> Some r | None \<Rightarrow> js_match ps cs)"

definition dquote :: char where
  "dquote = CHR 0x22"

definition filename_pattern :: "piece list" where
  "filename_pattern =
     map (\<lambda>c. Piece (Lit c) Once False) ''filename='' @
     [Piece (Lit dquote) Optional False,
      Piece AnyChar OneOrMore True,
      Piece (Lit dquote) Optional False]"

text \<open>
  Lines 111 to 117. The header is \<open>None\<close> when the response does not carry it; an empty
  header value is falsy as well. The test \<^verbatim>\<open>fileNameMatch.length === 2\<close> holds for every
  match of a pattern with one group.
\<close>

definition resolve_file_name :: "string option \<Rightarrow> string" where
  "resolve_file_name contentDisposition =
     (case contentDisposition of
        None \<Rightarrow> ''processed_data.xlsx''
      | Some h \<Rightarrow>
          if h = [] then ''processed_data.xlsx''
          else (case js_match filename_pattern h of
                  None \<Rightarrow> ''processed_data.xlsx''
                | Some fileName \<Rightarrow> fileName))"

subsection \<open>JavaScript values\<close>

text \<open>
  The values the error signal can hold: what \<^verbatim>\<open>JSON.parse\<close> returns, and \<^verbatim>\<open>undefined\<close>
  for a property that is not there. A number is given by its value.
\<close>

datatype jsval =
    JUndefined
  | JNull
  | JBool bool
  | JNum rat
  | JStr string
  | JArr "jsval list"
  | JObj "(string \<times> jsval) list"

fun truthy :: "jsval \<Rightarrow> bool" where
  "truthy JUndefined = False"
| "truthy JNull = False"
| "truthy (JBool b) = b"
| "truthy (JNum n) = (n \<noteq> 0)"
| "truthy (JStr s) = (s \<noteq> [])"
| "truthy (JArr xs) = True"
| "truthy (JObj kvs) = True"

text \<open>The operator \<^verbatim>\<open>a || b\<close>.\<close>

definition js_or :: "jsval \<Rightarrow> jsval \<Rightarrow> jsval" where
  "js_or a b = (if truthy a then a else b)"

subsection \<open>Files, requests, responses, thrown values\<close>

record File =
  file_name :: string
  file_type :: string
  file_content :: string

record request =
  url :: string
  field_name :: string
  payload :: File

text \<open>
  A response body as the handler looks at it: a \<^verbatim>\<open>Blob\<close>, with what its \<^verbatim>\<open>text()\<close>
  settles to (\<open>None\<close> when the read is rejected), or something that is no \<^verbatim>\<open>Blob\<close>.
\<close>

datatype body = BlobData "string option" | OtherData

record response =
  status :: nat
  content_type :: "string option"
  content_disposition :: "string option"
  data :: body

text \<open>
  What a \<^verbatim>\<open>catch\<close> can receive: the error of axios, whose \<^verbatim>\<open>response\<close> is missing when
  no reply arrived, or an exception of the platform, which has no such property. Each
  is an object, so reading \<^verbatim>\<open>err.response\<close> in line 128 yields a value and never throws.
\<close>

datatype thrown = AxiosError "response option" | TypeError | SyntaxError | DOMException

fun err_response :: "thrown \<Rightarrow> response option" where
  "err_response (AxiosError r) = r"
| "err_response TypeError = None"
| "err_response SyntaxError = None"
| "err_response DOMException = None"

datatype transport = Reply response | NoReply

text \<open>
  \<^verbatim>\<open>axios.post\<close> is a dependency of the component. With its default status check the
  promise is fulfilled by a reply with a status from 200 to 299 and rejected by any
  other reply and by a request without reply.
\<close>

definition axios_post :: "transport \<Rightarrow> thrown + response" where
  "axios_post t =
     (case t of
        Reply r \<Rightarrow>
          if 200 \<le> status r \<and> status r < 300 then Inr r else Inl (AxiosError (Some r))
      | NoReply \<Rightarrow> Inl (AxiosError None))"

text \<open>
  The statements of lines 104 to 122 call into the browser. They run to the end, or one
  of them throws: up to and including \<^verbatim>\<open>link.click()\<close>, or after it.
\<close>

datatype dom_fault = NoFault | ThrowsBeforeClick thrown | ThrowsAfterClick thrown

record platform =
  VITE_API_BASE_URL :: "string option"
  network :: "request \<Rightarrow> transport"
  dom :: dom_fault
  JSON_parse :: "string \<Rightarrow> jsval option"

subsection \<open>The state of the component\<close>

record error_signal =
  message :: jsval
  details :: jsval

text \<open>
  The five \<^verbatim>\<open>useState\<close> cells of lines 23 to 27, and the trace of what the component
  has done to the outside: the requests issued and the names under which a download was
  started.
\<close>

record state =
  file' :: "File option"
  isDragging :: bool
  isUploading :: bool
  error :: error_signal
  successMessage :: string
  requests :: "request list"
  downloads :: "string list"

definition initial_state :: state where
  "initial_state =
     \<lparr>file' = None, isDragging = False, isUploading = False,
      error = \<lparr>message = JStr [], details = JArr []\<rparr>,
      successMessage = [], requests = [], downloads = []\<rparr>"

text \<open>
  The component \<^verbatim>\<open>ErrorMessage\<close> reads its property \<^verbatim>\<open>details\<close> with the default
  \<^verbatim>\<open>[]\<close> (line 5), which stands in for \<^verbatim>\<open>undefined\<close>; it is rendered only for a
  truthy message (line 191).
\<close>

definition ErrorMessage_details :: "jsval \<Rightarrow> jsval" where
  "ErrorMessage_details d = (if d = JUndefined then JArr [] else d)"

subsection \<open>The validator\<close>

definition clearMessages :: "state \<Rightarrow> state" where
  "clearMessages s = s\<lparr>error := \<lparr>message = JStr [], details = JArr []\<rparr>, successMessage := []\<rparr>"

definition validateAndSetFile :: "File option \<Rightarrow> state \<Rightarrow> state" where
  "validateAndSetFile selectedFile s =
     (let s1 = clearMessages s in
      if (case selectedFile of
            None \<Rightarrow> False
          | Some f \<Rightarrow>
              file_type f = ''application/vnd.openxmlformats-officedocument.spreadsheetml.sheet'' \<or>
              file_type f = ''application/vnd.ms-excel'' \<or>
              file_type f = ''text/csv'')
      then s1\<lparr>file' := selectedFile\<rparr>
      else s1\<lparr>error := \<lparr>message = JStr ''Invalid file type. Please upload an Excel (.xlsx, .xls) or CSV (.csv) file.'',
                         details = JUndefined\<rparr>,
              file' := None\<rparr>)"

text \<open>\<^verbatim>\<open>files[0]\<close> of a file list: \<^verbatim>\<open>undefined\<close> when the list is empty.\<close>

definition first_file :: "File list \<Rightarrow> File option" where
  "first_file files = (case files of [] \<Rightarrow> None | f # _ \<Rightarrow> Some f)"

definition handleFileChange :: "File list \<Rightarrow> state \<Rightarrow> state" where
  "handleFileChange files s = validateAndSetFile (first_file files) s"

definition handleDrop :: "File list \<Rightarrow> state \<Rightarrow> state" where
  "handleDrop files s =
     (let s1 = s\<lparr>isDragging := False\<rparr> in
      case first_file files of
        None \<Rightarrow> s1
      | Some f \<Rightarrow> validateAndSetFile (Some f) s1)"

definition handleDragOver :: "state \<Rightarrow> state" where
  "handleDragOver s = s\<lparr>isDragging := True\<rparr>"

definition handleDragLeave :: "state \<Rightarrow> state" where
  "handleDragLeave s = s\<lparr>isDragging := False\<rparr>"

subsection \<open>The submit handler\<close>

text \<open>Lines 97 to 99; an unset or empty base URL gives way to the local one.\<close>

definition apiUrl :: "platform \<Rightarrow> string" where
  "apiUrl p =
     (case VITE_API_BASE_URL p of
        None \<Rightarrow> ''http://localhost:5000''
      | Some b \<Rightarrow> if b = [] then ''http://localhost:5000'' else b) @ ''/api/upload-excel''"

text \<open>
  Lines 85 to 100, up to the \<^verbatim>\<open>await\<close>: the state the component is left in while the
  request is in flight, with the request, or the state at the early return.
\<close>

definition handleUpload_begin :: "platform \<Rightarrow> state \<Rightarrow> state \<times> request option" where
  "handleUpload_begin p s =
     (case file' s of
        None \<Rightarrow>
          (s\<lparr>error := \<lparr>message = JStr ''Please select a file first.'', details = JUndefined\<rparr>\<rparr>, None)
      | Some f \<Rightarrow>
          (let s1 = clearMessages s;
               s2 = s1\<lparr>isUploading := True\<rparr>;
               req = \<lparr>url = apiUrl p, field_name = ''excel_file'', payload = f\<rparr>
           in (s2\<lparr>requests := requests s2 @ [req]\<rparr>, Some req)))"

text \<open>
  A block of statements run on a state ends normally or throws; either way it hands on
  the state it has reached. \<^verbatim>\<open>try\<close>/\<^verbatim>\<open>catch\<close>/\<^verbatim>\<open>finally\<close>: the handler runs on what
  the body throws, the finaliser runs last on every path, and what the handler throws
  leaves the construct.
\<close>

definition try_catch_finally ::
  "(state \<Rightarrow> thrown option \<times> state) \<Rightarrow> (thrown \<Rightarrow> state \<Rightarrow> thrown option \<times> state) \<Rightarrow>
   (state \<Rightarrow> state) \<Rightarrow> state \<Rightarrow> thrown option \<times> state" where
  "try_catch_finally body handler finaliser s =
     (case body s of
        (None, s1) \<Rightarrow> (None, finaliser s1)
      | (Some err, s1) \<Rightarrow>
          (case handler err s1 of (r, s2) \<Rightarrow> (r, finaliser s2)))"

text \<open>Lines 100 to 125, from the settling of the request on.\<close>

definition upload_try :: "platform \<Rightarrow> thrown + response \<Rightarrow> state \<Rightarrow> thrown option \<times> state" where
  "upload_try p outcome s =
     (case outcome of
        Inl err \<Rightarrow> (Some err, s)
      | Inr response \<Rightarrow>
          (let fileName = resolve_file_name (content_disposition response) in
           case dom p of
             ThrowsBeforeClick e \<Rightarrow> (Some e, s)
           | ThrowsAfterClick e \<Rightarrow> (Some e, s\<lparr>downloads := downloads s @ [fileName]\<rparr>)
           | NoFault \<Rightarrow>
               (None, s\<lparr>downloads := downloads s @ [fileName],
                        successMessage := ''File processed and download started!'',
                        file' := None\<rparr>)))"

text \<open>
  Reading \<^verbatim>\<open>message\<close> or \<^verbatim>\<open>details\<close> off a parsed value: a \<^verbatim>\<open>TypeError\<close> on
  \<^verbatim>\<open>null\<close>, the property of an object, and \<^verbatim>\<open>undefined\<close> on every other value, none
  of which has a property of either name.
\<close>

fun property :: "jsval \<Rightarrow> string \<Rightarrow> jsval" where
  "property (JObj kvs) k = (case map_of kvs k of None \<Rightarrow> JUndefined | Some v \<Rightarrow> v)"
| "property v k = JUndefined"

definition get_field :: "jsval \<Rightarrow> string \<Rightarrow> thrown + jsval" where
  "get_field v k = (if v = JUndefined \<or> v = JNull then Inl TypeError else Inr (property v k))"

text \<open>Lines 130 to 135, the body of the inner \<^verbatim>\<open>try\<close>.\<close>

definition read_error_body :: "platform \<Rightarrow> string option \<Rightarrow> thrown + error_signal" where
  "read_error_body p txt =
     (case txt of
        None \<Rightarrow> Inl DOMException
      | Some errText \<Rightarrow>
          (case JSON_parse p errText of
             None \<Rightarrow> Inl SyntaxError
           | Some errJson \<Rightarrow>
               (case get_field errJson ''message'' of
                  Inl e \<Rightarrow> Inl e
                | Inr m \<Rightarrow>
                    (case get_field errJson ''details'' of
                       Inl e \<Rightarrow> Inl e
                     | Inr d \<Rightarrow>
                         Inr \<lparr>message = js_or m (JStr ''An error occurred during processing.''),
                              details = js_or d (JArr [])\<rparr>))))"

text \<open>Lines 127 to 139: the inner \<^verbatim>\<open>catch\<close> keeps the first value of \<^verbatim>\<open>errorData\<close>.\<close>

definition errorData :: "platform \<Rightarrow> thrown \<Rightarrow> error_signal" where
  "errorData p err =
     (let errorData0 = \<lparr>message = JStr ''An unexpected error occurred.'', details = JArr []\<rparr> in
      case err_response err of
        None \<Rightarrow> errorData0
      | Some r \<Rightarrow>
          (case data r of
             OtherData \<Rightarrow> errorData0
           | BlobData txt \<Rightarrow>
               (case read_error_body p txt of
                  Inl e \<Rightarrow> errorData0
                | Inr d \<Rightarrow> d)))"

definition upload_catch :: "platform \<Rightarrow> thrown \<Rightarrow> state \<Rightarrow> thrown option \<times> state" where
  "upload_catch p err s = (None, s\<lparr>error := errorData p err\<rparr>)"

text \<open>Lines 96 to 143, from the settling of the request on.\<close>

definition handleUpload_settle ::
  "platform \<Rightarrow> thrown + response \<Rightarrow> state \<Rightarrow> thrown option \<times> state" where
  "handleUpload_settle p outcome s =
     try_catch_finally (upload_try p outcome) (upload_catch p) (\<lambda>s. s\<lparr>isUploading := False\<rparr>) s"

text \<open>
  One run of \<^verbatim>\<open>handleUpload\<close> with nothing in between: the value is what the returned
  promise is rejected with, if anything, and the state the run leaves.
\<close>

definition handleUpload :: "platform \<Rightarrow> state \<Rightarrow> thrown option \<times> state" where
  "handleUpload p s =
     (case handleUpload_begin p s of
        (s1, None) \<Rightarrow> (None, s1)
      | (s1, Some req) \<Rightarrow> handleUpload_settle p (axios_post (network p req)) s1)"

text \<open>The submission fails when the \<^verbatim>\<open>try\<close> block throws.\<close>

definition submission_fails :: "platform \<Rightarrow> thrown + response \<Rightarrow> bool" where
  "submission_fails p outcome \<longleftrightarrow>
     (case outcome of Inl err \<Rightarrow> True | Inr r \<Rightarrow> dom p \<noteq> NoFault)"

subsection \<open>The component as a transition system\<close>

text \<open>
  What can happen to a mounted component: a file is chosen or dropped, a drag passes
  over or leaves, the button is clicked, a request settles. Between the click and the
  settling any other event can occur. The events are not tied to each other (a settling
  needs no click before it), so the reachable states include those of every real run.
\<close>

datatype event =
    FileChange "File list"
  | Drop "File list"
  | DragOver
  | DragLeave
  | UploadClick platform
  | UploadSettled platform "thrown + response"

fun step :: "event \<Rightarrow> state \<Rightarrow> state" where
  "step (FileChange files) s = handleFileChange files s"
| "step (Drop files) s = handleDrop files s"
| "step DragOver s = handleDragOver s"
| "step DragLeave s = handleDragLeave s"
| "step (UploadClick p) s = fst (handleUpload_begin p s)"
| "step (UploadSettled p outcome) s = snd (handleUpload_settle p outcome s)"

inductive reachable :: "state \<Rightarrow> bool" where
  reachable_initial: "reachable initial_state"
| reachable_step: "reachable s \<Longrightarrow> reachable (step e s)"

text \<open>
  An error from which lines 128 to 135 cannot read a JSON text: it carries no response, or
  a body that is no \<^verbatim>\<open>Blob\<close>, or a \<^verbatim>\<open>Blob\<close> whose text cannot be read or is rejected
  by \<^verbatim>\<open>JSON.parse\<close>.
\<close>

definition no_json_body :: "platform \<Rightarrow> thrown \<Rightarrow> bool" where
  "no_json_body p err \<longleftrightarrow>
     (case err_response err of
        None \<Rightarrow> True
      | Some r \<Rightarrow>
          (case data r of
             OtherData \<Rightarrow> True
           | BlobData None \<Rightarrow> True
           | BlobData (Some t) \<Rightarrow> JSON_parse p t = None))"

subsection \<open>Example inputs\<close>

definition example_file :: File where
  "example_file = \<lparr>file_name = ''labels.csv'', file_type = ''text/csv'', file_content = ''sku,qty''\<rparr>"

definition example_pdf :: File where
  "example_pdf = \<lparr>file_name = ''labels.pdf'', file_type = ''application/pdf'', file_content = ''%PDF''\<rparr>"

text \<open>What \<^verbatim>\<open>JSON.parse\<close> returns on three texts; every other text is taken to be no JSON.\<close>

definition example_parse :: "string \<Rightarrow> jsval option" where
  "example_parse t =
     (if t = ''{\"message\":\"Bad rows\",\"details\":[\"row 3 invalid\"]}''
      then Some (JObj [(''message'', JStr ''Bad rows''), (''details'', JArr [JStr ''row 3 invalid''])])
      else if t = ''null'' then Some JNull
      else if t = ''{}'' then Some (JObj [])
      else None)"

definition example_platform :: "transport \<Rightarrow> platform" where
  "example_platform t =
     \<lparr>VITE_API_BASE_URL = None, network = (\<lambda>req. t), dom = NoFault, JSON_parse = example_parse\<rparr>"

definition example_request :: request where
  "example_request =
     \<lparr>url = ''http://localhost:5000/api/upload-excel'', field_name = ''excel_file'',
      payload = example_file\<rparr>"

definition example_reply :: "nat \<Rightarrow> string option \<Rightarrow> string \<Rightarrow> response" where
  "example_reply code disposition txt =
     \<lparr>status = code, content_type = Some ''application/octet-stream'',
      content_disposition = disposition, data = BlobData (Some txt)\<rparr>"

text \<open>The component after the user has chosen \<open>example_file\<close>.\<close>

definition staged :: state where
  "staged = validateAndSetFile (Some example_file) initial_state"

text \<open>
  A run in which the user drops a PDF while the request for \<open>example_file\<close> is in
  flight, and the request is then answered with a reply 200.
\<close>

definition interleaved :: state where
  "interleaved =
     step (UploadSettled (example_platform (Reply (example_reply 200 None ''PK'')))
             (Inr (example_reply 200 None ''PK'')))
       (step (Drop [example_pdf])
          (step (UploadClick (example_platform (Reply (example_reply 200 None ''PK'')))) staged))"

section \<open>Properties\<close>

subsection \<open>Shape of the handlers\<close>

lemma clearMessages_idem: "clearMessages (clearMessages s) = clearMessages s"
  by (simp add: clearMessages_def)

lemma handleUpload_no_file:
  "file' s = None \<Longrightarrow>
   handleUpload p s =
     (None, s\<lparr>error := \<lparr>message = JStr ''Please select a file first.'', details = JUndefined\<rparr>\<rparr>)"
  by (simp add: handleUpload_def handleUpload_begin_def)

lemma handleUpload_begin_file:
  "file' s = Some f \<Longrightarrow>
   handleUpload_begin p s =
     (s\<lparr>error := \<lparr>message = JStr [], details = JArr []\<rparr>, successMessage := [],
        isUploading := True,
        requests := requests s @ [\<lparr>url = apiUrl p, field_name = ''excel_file'', payload = f\<rparr>]\<rparr>,
      Some \<lparr>url = apiUrl p, field_name = ''excel_file'', payload = f\<rparr>)"
  by (simp add: handleUpload_begin_def clearMessages_def Let_def)

lemma handleUpload_file:
  "file' s = Some f \<Longrightarrow>
   handleUpload p s =
     handleUpload_settle p
       (axios_post (network p \<lparr>url = apiUrl p, field_name = ''excel_file'', payload = f\<rparr>))
       (fst (handleUpload_begin p s))"
  by (simp add: handleUpload_def handleUpload_begin_file)

lemma settle_success:
  "dom p = NoFault \<Longrightarrow>
   handleUpload_settle p (Inr r) s =
     (None, s\<lparr>downloads := downloads s @ [resolve_file_name (content_disposition r)],
              successMessage := ''File processed and download started!'',
              file' := None, isUploading := False\<rparr>)"
  by (simp add: handleUpload_settle_def try_catch_finally_def upload_try_def)

lemma settle_failure:
  "fst (upload_try p outcome s) = Some err \<Longrightarrow>
   handleUpload_settle p outcome s =
     (None, (snd (upload_try p outcome s))\<lparr>error := errorData p err, isUploading := False\<rparr>)"
  by (cases "upload_try p outcome s")
     (simp add: handleUpload_settle_def try_catch_finally_def upload_catch_def)

lemma submission_fails_iff:
  "submission_fails p outcome \<longleftrightarrow> fst (upload_try p outcome s) \<noteq> None"
  by (simp add: submission_fails_def upload_try_def Let_def split: sum.splits dom_fault.splits)

lemma upload_try_frame:
  "fst (upload_try p outcome s) = Some err \<Longrightarrow>
   file' (snd (upload_try p outcome s)) = file' s \<and>
   isDragging (snd (upload_try p outcome s)) = isDragging s \<and>
   isUploading (snd (upload_try p outcome s)) = isUploading s \<and>
   error (snd (upload_try p outcome s)) = error s \<and>
   successMessage (snd (upload_try p outcome s)) = successMessage s \<and>
   requests (snd (upload_try p outcome s)) = requests s"
  by (auto simp add: upload_try_def Let_def split: sum.splits dom_fault.splits)

lemma settle_returns: "fst (handleUpload_settle p outcome s) = None"
  by (simp add: handleUpload_settle_def try_catch_finally_def upload_try_def upload_catch_def
      Let_def split: sum.splits dom_fault.splits prod.splits)

lemma errorData_message_truthy: "truthy (message (errorData p err))"
  by (simp add: errorData_def read_error_body_def get_field_def js_or_def Let_def
      split: option.splits body.splits sum.splits)

lemma staged_eq:
  "staged = initial_state\<lparr>file' := Some example_file\<rparr>"
  by (simp add: staged_def validateAndSetFile_def clearMessages_def initial_state_def
      example_file_def)

lemma apiUrl_example: "apiUrl (example_platform t) = ''http://localhost:5000/api/upload-excel''"
  by (simp add: apiUrl_def example_platform_def)

lemma upload_try_fst: "fst (upload_try p outcome s) = fst (upload_try p outcome s')"
  by (simp add: upload_try_def Let_def split: sum.splits dom_fault.splits)

lemma try_completes:
  assumes "fst (upload_try p outcome s) = None"
  obtains r where "outcome = Inr r" and "dom p = NoFault"
proof -
  from assms have "outcome \<noteq> Inl e" for e
    by (auto simp add: upload_try_def)
  then obtain r where r: "outcome = Inr r"
    by (cases outcome) auto
  from assms have "dom p = NoFault"
    by (simp add: upload_try_def r Let_def split: dom_fault.splits)
  with r show ?thesis by (rule that)
qed

lemma handleUpload_success:
  assumes "file' s = Some f"
    and "network p \<lparr>url = apiUrl p, field_name = ''excel_file'', payload = f\<rparr> = Reply r"
    and "200 \<le> status r \<and> status r < 300"
    and "dom p = NoFault"
  shows "handleUpload p s =
       (None, s\<lparr>error := \<lparr>message = JStr [], details = JArr []\<rparr>,
                successMessage := ''File processed and download started!'',
                isUploading := False, file' := None,
                requests := requests s @ [\<lparr>url = apiUrl p, field_name = ''excel_file'', payload = f\<rparr>],
                downloads := downloads s @ [resolve_file_name (content_disposition r)]\<rparr>)"
  using assms
  by (simp add: handleUpload_file handleUpload_begin_file settle_success axios_post_def)

lemma settle_exclusive:
  assumes "successMessage s1 = []" and "\<not> truthy (message (error s1))"
  shows "\<not> (truthy (message (error (snd (handleUpload_settle p outcome s1)))) \<and>
           successMessage (snd (handleUpload_settle p outcome s1)) \<noteq> [])"
proof (cases "fst (upload_try p outcome s1)")
  case None
  then obtain r where r: "outcome = Inr r" and d: "dom p = NoFault"
    by (rule try_completes)
  show ?thesis
    using assms(2) by (simp add: r settle_success [OF d])
next
  case (Some err)
  show ?thesis
    using upload_try_frame [OF Some] assms(1)
    by (simp add: settle_failure [OF Some])
qed

lemma settle_generic:
  assumes "fst (upload_try p outcome s1) = Some err" and "no_json_body p err"
  shows "handleUpload_settle p outcome s1 =
       (None, (snd (upload_try p outcome s1))
                \<lparr>error := \<lparr>message = JStr ''An unexpected error occurred.'', details = JArr []\<rparr>,
                 isUploading := False\<rparr>)"
proof -
  have "errorData p err = \<lparr>message = JStr ''An unexpected error occurred.'', details = JArr []\<rparr>"
    using assms(2)
    by (simp add: no_json_body_def errorData_def read_error_body_def
        split: option.splits body.splits)
  then show ?thesis
    by (simp add: settle_failure [OF assms(1)])
qed

lemma settle_failure_frame:
  assumes "submission_fails p outcome"
  shows "file' (snd (handleUpload_settle p outcome s1)) = file' s1 \<and>
     isDragging (snd (handleUpload_settle p outcome s1)) = isDragging s1 \<and>
     successMessage (snd (handleUpload_settle p outcome s1)) = successMessage s1 \<and>
     requests (snd (handleUpload_settle p outcome s1)) = requests s1"
proof -
  from assms obtain err where e: "fst (upload_try p outcome s1) = Some err"
    using submission_fails_iff [of p outcome s1] by auto
  show ?thesis
    using upload_try_frame [OF e] by (simp add: settle_failure [OF e])
qed

lemma example_success:
  "handleUpload (example_platform (Reply (example_reply 200 None ''PK''))) staged =
     (None, initial_state\<lparr>successMessage := ''File processed and download started!'',
                           requests := [example_request],
                           downloads := [''processed_data.xlsx'']\<rparr>)"
proof -
  let ?p = "example_platform (Reply (example_reply 200 None ''PK''))"
  have f: "file' staged = Some example_file"
    by (simp add: staged_eq)
  have "handleUpload ?p staged =
      (None, staged\<lparr>error := \<lparr>message = JStr [], details = JArr []\<rparr>,
                successMessage := ''File processed and download started!'',
                isUploading := False, file' := None,
                requests := requests staged @ [\<lparr>url = apiUrl ?p, field_name = ''excel_file'', payload = example_file\<rparr>],
                downloads := downloads staged @ [resolve_file_name (content_disposition (example_reply 200 None ''PK''))]\<rparr>)"
    by (rule handleUpload_success [OF f])
       (simp_all add: example_platform_def example_reply_def)
  then show ?thesis
    by (simp add: staged_eq initial_state_def apiUrl_example example_request_def
        example_reply_def resolve_file_name_def)
qed

subsection \<open>The state a file can be staged in\<close>

text \<open>
  Whatever the order of events, a staged file and a success message never occur together:
  the success path drops the file and every selection clears the message.
\<close>

lemma validate_success_empty: "successMessage (validateAndSetFile sel s) = []"
  by (simp add: validateAndSetFile_def clearMessages_def Let_def)

lemma step_keeps_invariant:
  assumes "file' s \<noteq> None \<longrightarrow> successMessage s = []"
  shows "file' (step e s) \<noteq> None \<longrightarrow> successMessage (step e s) = []"
proof (cases e)
  case (FileChange files)
  then show ?thesis by (simp add: handleFileChange_def validate_success_empty)
next
  case (Drop files)
  then show ?thesis
    using assms by (simp add: handleDrop_def validate_success_empty Let_def split: option.splits)
next
  case DragOver
  then show ?thesis using assms by (simp add: handleDragOver_def)
next
  case DragLeave
  then show ?thesis using assms by (simp add: handleDragLeave_def)
next
  case (UploadClick p)
  then show ?thesis
    by (cases "file' s") (simp_all add: handleUpload_begin_def clearMessages_def Let_def)
next
  case (UploadSettled p outcome)
  show ?thesis
  proof (cases "fst (upload_try p outcome s)")
    case None
    then obtain r where r: "outcome = Inr r" and d: "dom p = NoFault"
      by (rule try_completes)
    show ?thesis
      by (simp add: UploadSettled r settle_success [OF d])
  next
    case (Some err)
    show ?thesis
      using upload_try_frame [OF Some] assms
      by (simp add: UploadSettled settle_failure [OF Some])
  qed
qed

lemma reachable_file_no_success:
  "reachable s \<Longrightarrow> file' s \<noteq> None \<longrightarrow> successMessage s = []"
proof (induction rule: reachable.induct)
  case reachable_initial
  show ?case by (simp add: initial_state_def)
next
  case (reachable_step s e)
  show ?case by (rule step_keeps_invariant) (rule reachable_step.IH)
qed

lemma step_changes_file:
  assumes "file' (step e s) \<noteq> file' s"
  shows "(\<exists>files. e = FileChange files \<or> e = Drop files) \<or>
     (\<exists>p outcome. e = UploadSettled p outcome \<and> \<not> submission_fails p outcome)"
proof (cases e)
  case (UploadClick p)
  then show ?thesis
    using assms by (cases "file' s") (simp_all add: handleUpload_begin_def clearMessages_def Let_def)
next
  case (UploadSettled p outcome)
  then show ?thesis
    using assms settle_failure_frame [of p outcome s] by auto
qed (use assms in \<open>simp_all add: handleDragOver_def handleDragLeave_def\<close>)

lemma staged_reachable: "reachable staged"
proof -
  have "staged = step (FileChange [example_file]) initial_state"
    by (simp add: staged_def handleFileChange_def first_file_def)
  then show ?thesis
    using reachable_step [OF reachable_initial, of "FileChange [example_file]"] by simp
qed

text \<open>
  An error message and a success message can stand side by side once events interleave:
  a file of the wrong type is dropped while a request is in flight, and the request then
  succeeds.
\<close>

lemma both_messages_reachable:
  "reachable interleaved \<and> truthy (message (error interleaved)) \<and> successMessage interleaved \<noteq> []"
proof -
  have d: "dom (example_platform (Reply (example_reply 200 None ''PK''))) = NoFault"
    by (simp add: example_platform_def)
  have r: "reachable interleaved"
    unfolding interleaved_def by (intro reachable_step staged_reachable)
  have "truthy (message (error interleaved)) \<and> successMessage interleaved \<noteq> []"
    by (simp add: interleaved_def settle_success [OF d] handleDrop_def
        first_file_def validateAndSetFile_def clearMessages_def example_pdf_def)
  with r show ?thesis by simp
qed

subsection \<open>The save name\<close>

text \<open>
  C1. For the header \<^verbatim>\<open>attachment; filename="report.xlsx"\<close> the group \<^verbatim>\<open>(.+)\<close> runs to
  the end of the header and takes the closing quote with it, so the name the code
  resolves, and starts the download under, is \<^verbatim>\<open>report.xlsx"\<close> and not
  \<^verbatim>\<open>report.xlsx\<close>.
\<close>

theorem filename_keeps_closing_quote:
  "resolve_file_name (Some ''attachment; filename=\"report.xlsx\"'') = ''report.xlsx\"'' \<and>
   resolve_file_name (Some ''attachment; filename=\"report.xlsx\"'') \<noteq> ''report.xlsx'' \<and>
   downloads (snd (handleUpload
       (example_platform (Reply (example_reply 200 (Some ''attachment; filename=\"report.xlsx\"'') ''PK'')))
       staged)) = [''report.xlsx\"'']"
proof -
  let ?r = "example_reply 200 (Some ''attachment; filename=\"report.xlsx\"'') ''PK''"
  let ?p = "example_platform (Reply ?r)"
  have n: "resolve_file_name (Some ''attachment; filename=\"report.xlsx\"'') = ''report.xlsx\"''"
    by code_simp
  have f: "file' staged = Some example_file"
    by (simp add: staged_eq)
  have d: "dom ?p = NoFault"
    by (simp add: example_platform_def)
  have a: "axios_post (network ?p req) = Inr ?r" for req
    by (simp add: axios_post_def example_platform_def example_reply_def)
  have c: "content_disposition ?r = Some ''attachment; filename=\"report.xlsx\"''"
    by (simp add: example_reply_def)
  have "downloads (snd (handleUpload ?p staged)) = downloads staged @ [''report.xlsx\"'']"
    unfolding handleUpload_file [OF f] a settle_success [OF d] c n
    by (simp add: handleUpload_begin_file [OF f])
  then show ?thesis
    using n by (simp add: staged_eq initial_state_def)
qed

text \<open>
  C8. A reply with a status from 200 to 299 whose \<^verbatim>\<open>content-disposition\<close> header is
  absent, or present without a match of the pattern, makes the submission succeed when
  the browser calls go through: the promise is not rejected, the success message is set,
  the candidate is dropped, the busy flag is down, and the download is started under
  \<^verbatim>\<open>processed_data.xlsx\<close>.
\<close>

theorem default_file_name:
  assumes "file' s = Some f"
    and "network p \<lparr>url = apiUrl p, field_name = ''excel_file'', payload = f\<rparr> = Reply r"
    and "200 \<le> status r \<and> status r < 300"
    and "dom p = NoFault"
    and "content_disposition r = None \<or>
         (\<exists>h. content_disposition r = Some h \<and> js_match filename_pattern h = None)"
  shows "handleUpload p s =
       (None, s\<lparr>error := \<lparr>message = JStr [], details = JArr []\<rparr>,
                successMessage := ''File processed and download started!'',
                isUploading := False, file' := None,
                requests := requests s @ [\<lparr>url = apiUrl p, field_name = ''excel_file'', payload = f\<rparr>],
                downloads := downloads s @ [''processed_data.xlsx'']\<rparr>)"
proof -
  have "resolve_file_name (content_disposition r) = ''processed_data.xlsx''"
    using assms(5) by (auto simp add: resolve_file_name_def)
  then show ?thesis
    using handleUpload_success [OF assms(1-4)] by simp
qed

text \<open>
  The default name at work: a reply 200 without the header, and a reply 204 whose header
  \<^verbatim>\<open>inline\<close> holds no \<^verbatim>\<open>filename=\<close>.
\<close>

theorem default_file_name_witness:
  "handleUpload (example_platform (Reply (example_reply 200 None ''PK''))) staged =
     (None, initial_state\<lparr>successMessage := ''File processed and download started!'',
                           requests := [example_request],
                           downloads := [''processed_data.xlsx'']\<rparr>) \<and>
   js_match filename_pattern ''inline'' = None \<and>
   downloads (snd (handleUpload (example_platform (Reply (example_reply 204 (Some ''inline'') ''PK''))) staged))
     = [''processed_data.xlsx'']"
proof -
  have f: "file' staged = Some example_file"
    by (simp add: staged_eq)
  have n: "js_match filename_pattern ''inline'' = None"
    by code_simp
  have 1: "handleUpload (example_platform (Reply (example_reply 200 None ''PK''))) staged =
     (None, initial_state\<lparr>successMessage := ''File processed and download started!'',
                           requests := [example_request],
                           downloads := [''processed_data.xlsx'']\<rparr>)"
    using default_file_name [OF f, of "example_platform (Reply (example_reply 200 None ''PK''))"
        "example_reply 200 None ''PK''"]
    by (simp add: example_platform_def example_reply_def staged_eq initial_state_def
        apiUrl_def example_request_def)
  have 2: "downloads (snd (handleUpload (example_platform (Reply (example_reply 204 (Some ''inline'') ''PK''))) staged))
     = [''processed_data.xlsx'']"
    using default_file_name [OF f, of "example_platform (Reply (example_reply 204 (Some ''inline'') ''PK''))"
        "example_reply 204 (Some ''inline'') ''PK''"] n
    by (simp add: example_platform_def example_reply_def staged_eq initial_state_def)
  show ?thesis using 1 2 n by simp
qed

subsection \<open>The validator\<close>

text \<open>
  C3. When no file is passed, or a file whose declared media type is none of the three
  accepted ones, the validator clears the success message, sets the fixed error message
  and empties the candidate. It sets no details with the message, so the detail list
  that \<^verbatim>\<open>ErrorMessage\<close> shows is the empty list.
\<close>

theorem validate_rejects:
  assumes "selectedFile = None \<or>
     (\<exists>f. selectedFile = Some f \<and>
        file_type f \<notin> {''application/vnd.openxmlformats-officedocument.spreadsheetml.sheet'',
                        ''application/vnd.ms-excel'', ''text/csv''})"
  shows "validateAndSetFile selectedFile s =
       s\<lparr>error := \<lparr>message = JStr ''Invalid file type. Please upload an Excel (.xlsx, .xls) or CSV (.csv) file.'',
                     details = JUndefined\<rparr>,
         successMessage := [], file' := None\<rparr> \<and>
     ErrorMessage_details (details (error (validateAndSetFile selectedFile s))) = JArr []"
  using assms by (auto simp add: validateAndSetFile_def clearMessages_def ErrorMessage_details_def)

text \<open>Rejected: no file at all, and a PDF, each offered while a CSV file is staged.\<close>

theorem validate_rejects_witness:
  "validateAndSetFile None staged =
       staged\<lparr>error := \<lparr>message = JStr ''Invalid file type. Please upload an Excel (.xlsx, .xls) or CSV (.csv) file.'',
                     details = JUndefined\<rparr>,
         successMessage := [], file' := None\<rparr> \<and>
   file' (validateAndSetFile (Some example_pdf) staged) = None \<and>
   ErrorMessage_details (details (error (validateAndSetFile (Some example_pdf) staged))) = JArr []"
  using validate_rejects [of None staged] validate_rejects [of "Some example_pdf" staged]
  by (simp add: example_pdf_def ErrorMessage_details_def)

text \<open>
  C9. A file whose declared media type is one of the three accepted ones is stored as the
  candidate, whatever was staged before, with the error and the success message cleared;
  a file of any other declared type is not stored and leaves an error message.
\<close>

theorem validate_accepts:
  "(file_type f \<in> {''application/vnd.openxmlformats-officedocument.spreadsheetml.sheet'',
                   ''application/vnd.ms-excel'', ''text/csv''} \<longrightarrow>
      validateAndSetFile (Some f) s =
        s\<lparr>error := \<lparr>message = JStr [], details = JArr []\<rparr>, successMessage := [], file' := Some f\<rparr>) \<and>
   (file_type f \<notin> {''application/vnd.openxmlformats-officedocument.spreadsheetml.sheet'',
                   ''application/vnd.ms-excel'', ''text/csv''} \<longrightarrow>
      file' (validateAndSetFile (Some f) s) = None \<and>
      truthy (message (error (validateAndSetFile (Some f) s))))"
  by (auto simp add: validateAndSetFile_def clearMessages_def)

text \<open>A CSV file is accepted into the fresh component; a PDF offered after it is not.\<close>

theorem validate_accepts_witness:
  "validateAndSetFile (Some example_file) initial_state =
     initial_state\<lparr>file' := Some example_file\<rparr> \<and>
   file' (validateAndSetFile (Some example_pdf) staged) = None"
  using validate_accepts [of example_file initial_state] validate_accepts [of example_pdf staged]
  by (simp add: example_file_def example_pdf_def initial_state_def)

subsection \<open>Submitting without a candidate\<close>

text \<open>
  C5. Without a candidate the handler changes the error signal and nothing else: the
  message is \<^verbatim>\<open>Please select a file first.\<close>, the run ends before the \<^verbatim>\<open>await\<close>, no
  request is issued and the busy flag is as it was.
\<close>

theorem submit_without_file:
  assumes "file' s = None"
  shows "handleUpload p s =
       (None, s\<lparr>error := \<lparr>message = JStr ''Please select a file first.'', details = JUndefined\<rparr>\<rparr>) \<and>
     snd (handleUpload_begin p s) = None \<and>
     requests (snd (handleUpload p s)) = requests s \<and>
     isUploading (snd (handleUpload p s)) = isUploading s"
  using assms by (simp add: handleUpload_no_file handleUpload_begin_def)

text \<open>The button pressed on the fresh component.\<close>

theorem submit_without_file_witness:
  "file' initial_state = None \<and>
   handleUpload (example_platform NoReply) initial_state =
     (None, initial_state\<lparr>error := \<lparr>message = JStr ''Please select a file first.'', details = JUndefined\<rparr>\<rparr>) \<and>
   requests (snd (handleUpload (example_platform NoReply) initial_state)) = []"
  using submit_without_file [of initial_state "example_platform NoReply"]
  by (simp add: initial_state_def)

subsection \<open>The two messages\<close>

text \<open>
  C2, as the claim states it, fails: after a successful submission the candidate is gone
  and the success message is up; a further submission then sets the error message and
  leaves the success message where it is, so both are non-empty.
\<close>

theorem no_file_submit_keeps_success_message:
  "truthy (message (error (snd (handleUpload (example_platform NoReply)
      (snd (handleUpload (example_platform (Reply (example_reply 200 None ''PK''))) staged)))))) \<and>
   successMessage (snd (handleUpload (example_platform NoReply)
      (snd (handleUpload (example_platform (Reply (example_reply 200 None ''PK''))) staged))))
     \<noteq> []"
  by (simp add: example_success handleUpload_no_file initial_state_def)

text \<open>
  C2, amended. After a validation the two messages are never both non-empty, and the
  validation starts by clearing both: it yields what it yields on the cleared state.
  A submission with a candidate starts by clearing both as well, so that neither is set
  while the request is in flight, and when nothing happens in between it ends with at
  most one of them set. A submission without a candidate sets the error message and
  leaves the success message as it was.
\<close>

theorem messages_exclusive:
  "\<not> (truthy (message (error (validateAndSetFile selectedFile s))) \<and>
      successMessage (validateAndSetFile selectedFile s) \<noteq> []) \<and>
   validateAndSetFile selectedFile s = validateAndSetFile selectedFile (clearMessages s) \<and>
   (file' s \<noteq> None \<longrightarrow>
      error (fst (handleUpload_begin p s)) = \<lparr>message = JStr [], details = JArr []\<rparr> \<and>
      successMessage (fst (handleUpload_begin p s)) = [] \<and>
      handleUpload p s = handleUpload p (clearMessages s) \<and>
      \<not> (truthy (message (error (snd (handleUpload p s)))) \<and>
         successMessage (snd (handleUpload p s)) \<noteq> [])) \<and>
   (file' s = None \<longrightarrow>
      message (error (snd (handleUpload p s))) = JStr ''Please select a file first.'' \<and>
      successMessage (snd (handleUpload p s)) = successMessage s)"
proof -
  have v2: "validateAndSetFile selectedFile s = validateAndSetFile selectedFile (clearMessages s)"
    by (simp add: validateAndSetFile_def clearMessages_idem Let_def)
  have u: "error (fst (handleUpload_begin p s)) = \<lparr>message = JStr [], details = JArr []\<rparr> \<and>
      successMessage (fst (handleUpload_begin p s)) = [] \<and>
      handleUpload p s = handleUpload p (clearMessages s) \<and>
      \<not> (truthy (message (error (snd (handleUpload p s)))) \<and>
         successMessage (snd (handleUpload p s)) \<noteq> [])" if f: "file' s = Some f" for f
  proof -
    let ?s1 = "fst (handleUpload_begin p s)"
    have f': "file' (clearMessages s) = Some f"
      using f by (simp add: clearMessages_def)
    have b: "handleUpload_begin p (clearMessages s) = handleUpload_begin p s"
      by (simp add: handleUpload_begin_file [OF f] handleUpload_begin_file [OF f'])
         (simp add: clearMessages_def)
    have c: "handleUpload p s = handleUpload p (clearMessages s)"
      by (simp add: handleUpload_def b)
    have e: "\<not> (truthy (message (error (snd (handleUpload_settle p outcome ?s1)))) \<and>
         successMessage (snd (handleUpload_settle p outcome ?s1)) \<noteq> [])" for outcome
      by (rule settle_exclusive) (simp_all add: handleUpload_begin_file [OF f])
    have x: "\<not> (truthy (message (error (snd (handleUpload p s)))) \<and>
         successMessage (snd (handleUpload p s)) \<noteq> [])"
      unfolding handleUpload_file [OF f] by (rule e)
    show ?thesis
      using x c by (simp add: handleUpload_begin_file [OF f])
  qed
  show ?thesis
    using validate_success_empty [of selectedFile s] v2 u by (auto simp add: handleUpload_no_file)
qed

text \<open>With a staged file the messages are clear in flight; without one the error is set.\<close>

theorem messages_exclusive_witness:
  "file' staged \<noteq> None \<and>
   successMessage (fst (handleUpload_begin (example_platform NoReply) staged)) = [] \<and>
   file' initial_state = None \<and>
   message (error (snd (handleUpload (example_platform NoReply) initial_state)))
     = JStr ''Please select a file first.''"
  using messages_exclusive [of None staged "example_platform NoReply"]
    messages_exclusive [of None initial_state "example_platform NoReply"]
  by (simp add: staged_eq initial_state_def)

subsection \<open>The busy flag\<close>

text \<open>
  C4. A submission with a candidate raises the busy flag before the request goes out.
  When the request settles the flag is lowered and the promise is not rejected, whatever
  the outcome: a reply that fulfils, a rejection with or without a response, or an
  exception of a browser call. The flag is lowered by the \<^verbatim>\<open>finally\<close> clause, which
  would lower it after any body and any handler.
\<close>

theorem busy_cleared_on_every_path:
  "(file' s = Some f \<longrightarrow>
      isUploading (fst (handleUpload_begin p s)) \<and>
      fst (handleUpload p s) = None \<and> \<not> isUploading (snd (handleUpload p s))) \<and>
   fst (handleUpload_settle p outcome s1) = None \<and>
   \<not> isUploading (snd (handleUpload_settle p outcome s1)) \<and>
   \<not> isUploading (snd (try_catch_finally body handler (\<lambda>s. s\<lparr>isUploading := False\<rparr>) s2))"
proof -
  have fin: "\<not> isUploading (snd (try_catch_finally body handler (\<lambda>s. s\<lparr>isUploading := False\<rparr>) s2))"
    for body handler s2
    by (simp add: try_catch_finally_def split: prod.splits option.splits)
  have st: "\<not> isUploading (snd (handleUpload_settle p outcome s1))" for outcome s1
    unfolding handleUpload_settle_def by (rule fin)
  show ?thesis
    by (simp add: fin st settle_returns handleUpload_file handleUpload_begin_file)
qed

text \<open>A staged file submitted into a network that does not answer.\<close>

theorem busy_cleared_on_every_path_witness:
  "file' staged = Some example_file \<and>
   isUploading (fst (handleUpload_begin (example_platform NoReply) staged)) \<and>
   \<not> isUploading (snd (handleUpload (example_platform NoReply) staged))"
  using busy_cleared_on_every_path [of staged example_file "example_platform NoReply"]
  by (simp add: staged_eq)

subsection \<open>Decoding the error\<close>

text \<open>
  C6, as the claim states it, fails: the text \<^verbatim>\<open>null\<close> is valid JSON, reading
  \<^verbatim>\<open>message\<close> off the parsed value throws, and the inner \<^verbatim>\<open>catch\<close> leaves the generic
  message, not the fallback for a missing message.
\<close>

theorem null_body_gives_generic_error:
  "message (error (snd (handleUpload (example_platform (Reply (example_reply 400 None ''null''))) staged)))
     = JStr ''An unexpected error occurred.'' \<and>
   example_parse ''null'' = Some JNull \<and>
   JStr ''An unexpected error occurred.'' \<noteq> JStr ''An error occurred during processing.''"
proof -
  let ?r = "example_reply 400 None ''null''"
  let ?p = "example_platform (Reply ?r)"
  have f: "file' staged = Some example_file"
    by (simp add: staged_eq)
  have a: "axios_post (network ?p req) = Inl (AxiosError (Some ?r))" for req
    by (simp add: axios_post_def example_platform_def example_reply_def)
  have t: "fst (upload_try ?p (Inl (AxiosError (Some ?r))) s) = Some (AxiosError (Some ?r))" for s
    by (simp add: upload_try_def)
  have e: "errorData ?p (AxiosError (Some ?r)) =
      \<lparr>message = JStr ''An unexpected error occurred.'', details = JArr []\<rparr>"
    by (simp add: errorData_def read_error_body_def example_reply_def example_platform_def
        example_parse_def get_field_def)
  show ?thesis
    unfolding handleUpload_file [OF f] a settle_failure [OF t] e
    by (simp add: example_parse_def)
qed

text \<open>
  A message that is present but empty gives way to the fallback as well, as every falsy
  value does.
\<close>

lemma empty_message_gives_fallback:
  "js_or (property (JObj [(''message'', JStr [])]) ''message'')
     (JStr ''An error occurred during processing.'') = JStr ''An error occurred during processing.''"
  by (simp add: js_or_def)

text \<open>
  C6, amended. For a reply with a status outside 200 to 299 whose body is a \<^verbatim>\<open>Blob\<close> with
  a text that parses to a JSON value other than \<^verbatim>\<open>null\<close>, the error message is the
  \<^verbatim>\<open>message\<close> of that value when it has one that is truthy (for a string: non-empty)
  and \<^verbatim>\<open>An error occurred during processing.\<close> otherwise, and the details are its
  \<^verbatim>\<open>details\<close> when it has them and they are truthy, and the empty list otherwise.
\<close>

theorem structured_error_decoded:
  assumes "file' s = Some f"
    and "network p \<lparr>url = apiUrl p, field_name = ''excel_file'', payload = f\<rparr> = Reply r"
    and "\<not> (200 \<le> status r \<and> status r < 300)"
    and "data r = BlobData (Some t)"
    and "JSON_parse p t = Some v"
    and "v \<noteq> JNull" and "v \<noteq> JUndefined"
  shows "error (snd (handleUpload p s)) =
       \<lparr>message = js_or (property v ''message'') (JStr ''An error occurred during processing.''),
        details = js_or (property v ''details'') (JArr [])\<rparr>"
proof -
  let ?err = "AxiosError (Some r)"
  have a: "axios_post (network p \<lparr>url = apiUrl p, field_name = ''excel_file'', payload = f\<rparr>) = Inl ?err"
    using assms(2,3) by (simp add: axios_post_def)
  have t: "fst (upload_try p (Inl ?err) s1) = Some ?err" for s1
    by (simp add: upload_try_def)
  have e: "errorData p ?err =
       \<lparr>message = js_or (property v ''message'') (JStr ''An error occurred during processing.''),
        details = js_or (property v ''details'') (JArr [])\<rparr>"
    using assms(4-7) by (simp add: errorData_def read_error_body_def get_field_def)
  show ?thesis
    unfolding handleUpload_file [OF assms(1)] a settle_failure [OF t] e by simp
qed

text \<open>
  The reply 400 of the specification, with message and details, and a reply 500 with the
  body \<^verbatim>\<open>{}\<close>, which has neither.
\<close>

theorem structured_error_decoded_witness:
  "error (snd (handleUpload
      (example_platform (Reply (example_reply 400 None
          ''{\"message\":\"Bad rows\",\"details\":[\"row 3 invalid\"]}'')))
      staged)) = \<lparr>message = JStr ''Bad rows'', details = JArr [JStr ''row 3 invalid'']\<rparr> \<and>
   error (snd (handleUpload (example_platform (Reply (example_reply 500 None ''{}''))) staged)) =
     \<lparr>message = JStr ''An error occurred during processing.'', details = JArr []\<rparr>"
proof -
  have f: "file' staged = Some example_file"
    by (simp add: staged_eq)
  have n: "network (example_platform t) req = t" for t req
    by (simp add: example_platform_def)
  have j: "JSON_parse (example_platform t) = example_parse" for t
    by (simp add: example_platform_def)
  have 1: "error (snd (handleUpload
      (example_platform (Reply (example_reply 400 None
          ''{\"message\":\"Bad rows\",\"details\":[\"row 3 invalid\"]}'')))
      staged)) = \<lparr>message = JStr ''Bad rows'', details = JArr [JStr ''row 3 invalid'']\<rparr>"
    using structured_error_decoded [OF f, of "example_platform (Reply (example_reply 400 None
          ''{\"message\":\"Bad rows\",\"details\":[\"row 3 invalid\"]}''))"
        "example_reply 400 None ''{\"message\":\"Bad rows\",\"details\":[\"row 3 invalid\"]}''"
        "''{\"message\":\"Bad rows\",\"details\":[\"row 3 invalid\"]}''"
        "JObj [(''message'', JStr ''Bad rows''), (''details'', JArr [JStr ''row 3 invalid''])]"]
    by (simp add: n j example_reply_def example_parse_def js_or_def)
  have 2: "error (snd (handleUpload (example_platform (Reply (example_reply 500 None ''{}''))) staged)) =
     \<lparr>message = JStr ''An error occurred during processing.'', details = JArr []\<rparr>"
    using structured_error_decoded [OF f, of "example_platform (Reply (example_reply 500 None ''{}''))"
        "example_reply 500 None ''{}''" "''{}''" "JObj []"]
    by (simp add: n j example_reply_def example_parse_def js_or_def)
  show ?thesis using 1 2 by simp
qed

text \<open>
  C7. When the \<^verbatim>\<open>try\<close> block throws an error without a response, or with a body that
  is no \<^verbatim>\<open>Blob\<close>, or with a \<^verbatim>\<open>Blob\<close> whose text cannot be read or is no JSON, the
  settling sets the error signal to \<^verbatim>\<open>An unexpected error occurred.\<close> with an empty
  detail list, lowers the busy flag and rejects nothing; so does the whole submission of
  a staged file that meets such an outcome.
\<close>

theorem undecodable_error_is_generic:
  assumes "fst (upload_try p outcome s1) = Some err" and "no_json_body p err"
  shows "handleUpload_settle p outcome s1 =
       (None, (snd (upload_try p outcome s1))
                \<lparr>error := \<lparr>message = JStr ''An unexpected error occurred.'', details = JArr []\<rparr>,
                 isUploading := False\<rparr>) \<and>
     (file' s = Some f \<and>
      outcome = axios_post (network p \<lparr>url = apiUrl p, field_name = ''excel_file'', payload = f\<rparr>) \<longrightarrow>
        fst (handleUpload p s) = None \<and>
        error (snd (handleUpload p s)) =
          \<lparr>message = JStr ''An unexpected error occurred.'', details = JArr []\<rparr> \<and>
        \<not> isUploading (snd (handleUpload p s)))"
proof -
  have e: "fst (upload_try p outcome s') = Some err" for s'
    using assms(1) upload_try_fst [of p outcome s' s1] by simp
  have g: "handleUpload_settle p outcome s' =
       (None, (snd (upload_try p outcome s'))
                \<lparr>error := \<lparr>message = JStr ''An unexpected error occurred.'', details = JArr []\<rparr>,
                 isUploading := False\<rparr>)" for s'
    by (rule settle_generic [OF e assms(2)])
  have "fst (handleUpload p s) = None \<and>
        error (snd (handleUpload p s)) =
          \<lparr>message = JStr ''An unexpected error occurred.'', details = JArr []\<rparr> \<and>
        \<not> isUploading (snd (handleUpload p s))"
    if "file' s = Some f"
      and "outcome = axios_post (network p \<lparr>url = apiUrl p, field_name = ''excel_file'', payload = f\<rparr>)"
    unfolding handleUpload_file [OF that(1)] that(2) [symmetric] g by simp
  then show ?thesis
    using g [of s1] by blast
qed

text \<open>
  No reply at all, and a reply 500 with an HTML body, each met by a staged file.
\<close>

theorem undecodable_error_is_generic_witness:
  "no_json_body (example_platform NoReply) (AxiosError None) \<and>
   no_json_body (example_platform NoReply) (AxiosError (Some (example_reply 500 None ''<html>''))) \<and>
   error (snd (handleUpload (example_platform NoReply) staged)) =
     \<lparr>message = JStr ''An unexpected error occurred.'', details = JArr []\<rparr> \<and>
   handleUpload_settle (example_platform NoReply)
       (Inl (AxiosError (Some (example_reply 500 None ''<html>'')))) staged =
     (None, staged\<lparr>error := \<lparr>message = JStr ''An unexpected error occurred.'', details = JArr []\<rparr>,
                   isUploading := False\<rparr>)"
proof -
  let ?p = "example_platform NoReply"
  have 1: "no_json_body ?p (AxiosError None)"
    by (simp add: no_json_body_def)
  have 2: "no_json_body ?p (AxiosError (Some (example_reply 500 None ''<html>'')))"
    by (simp add: no_json_body_def example_reply_def example_platform_def example_parse_def)
  have t: "fst (upload_try ?p (Inl e) staged) = Some e" for e
    by (simp add: upload_try_def)
  have s: "snd (upload_try ?p (Inl e) staged) = staged" for e
    by (simp add: upload_try_def)
  have a: "axios_post (network ?p req) = Inl (AxiosError None)" for req
    by (simp add: axios_post_def example_platform_def)
  have f: "file' staged = Some example_file"
    by (simp add: staged_eq)
  show ?thesis
    using undecodable_error_is_generic [OF t 1, of staged example_file]
      undecodable_error_is_generic [OF t 2, of staged example_file] 1 2 f
    by (simp add: s a)
qed

subsection \<open>The candidate across a failed submission\<close>

text \<open>
  C10. A settling that fails leaves the candidate, the drag flag and the success message
  as they are; what it writes is the error signal and the busy flag. A staged file in a
  reachable state whose submission fails is therefore still staged, with the success
  message still empty, and the next click sends the same file again. The candidate
  changes only when a file is chosen or dropped or when a submission succeeds.
\<close>

theorem failure_keeps_candidate:
  "(submission_fails p outcome \<longrightarrow>
      file' (snd (handleUpload_settle p outcome s1)) = file' s1 \<and>
      isDragging (snd (handleUpload_settle p outcome s1)) = isDragging s1 \<and>
      successMessage (snd (handleUpload_settle p outcome s1)) = successMessage s1) \<and>
   (reachable s \<and> file' s = Some f \<and>
    submission_fails p
      (axios_post (network p \<lparr>url = apiUrl p, field_name = ''excel_file'', payload = f\<rparr>)) \<longrightarrow>
      file' (snd (handleUpload p s)) = Some f \<and>
      isDragging (snd (handleUpload p s)) = isDragging s \<and>
      successMessage (snd (handleUpload p s)) = successMessage s \<and>
      snd (handleUpload_begin q (snd (handleUpload p s))) =
        Some \<lparr>url = apiUrl q, field_name = ''excel_file'', payload = f\<rparr>) \<and>
   (file' (step e s) \<noteq> file' s \<longrightarrow>
      (\<exists>files. e = FileChange files \<or> e = Drop files) \<or>
      (\<exists>p' outcome'. e = UploadSettled p' outcome' \<and> \<not> submission_fails p' outcome'))"
proof -
  have 2: "file' (snd (handleUpload p s)) = Some f \<and>
      isDragging (snd (handleUpload p s)) = isDragging s \<and>
      successMessage (snd (handleUpload p s)) = successMessage s \<and>
      snd (handleUpload_begin q (snd (handleUpload p s))) =
        Some \<lparr>url = apiUrl q, field_name = ''excel_file'', payload = f\<rparr>"
    if r: "reachable s" and f: "file' s = Some f"
      and x: "submission_fails p
        (axios_post (network p \<lparr>url = apiUrl p, field_name = ''excel_file'', payload = f\<rparr>))"
  proof -
    have m: "successMessage s = []"
      using reachable_file_no_success [OF r] f by simp
    have k: "file' (snd (handleUpload p s)) = Some f \<and>
      isDragging (snd (handleUpload p s)) = isDragging s \<and>
      successMessage (snd (handleUpload p s)) = successMessage s"
      unfolding handleUpload_file [OF f]
      using settle_failure_frame [OF x, of "fst (handleUpload_begin p s)"] m f
      by (simp add: handleUpload_begin_file [OF f])
    then have "file' (snd (handleUpload p s)) = Some f" by simp
    then show ?thesis
      using k by (simp add: handleUpload_begin_file)
  qed
  show ?thesis
    using settle_failure_frame [of p outcome s1] 2 step_changes_file [of e s] by blast
qed

text \<open>
  A staged file meets a network without reply and stays staged; a reply 200 takes it
  away.
\<close>

theorem failure_keeps_candidate_witness:
  "file' (snd (handleUpload_settle (example_platform NoReply) (Inl (AxiosError None)) staged))
     = Some example_file \<and>
   file' (snd (handleUpload (example_platform NoReply) staged)) = Some example_file \<and>
   snd (handleUpload_begin (example_platform NoReply) (snd (handleUpload (example_platform NoReply) staged)))
     = Some example_request \<and>
   file' (step (UploadSettled (example_platform (Reply (example_reply 200 None ''PK'')))
                (Inr (example_reply 200 None ''PK''))) staged)
     \<noteq> file' staged \<and>
   \<not> submission_fails (example_platform (Reply (example_reply 200 None ''PK'')))
       (Inr (example_reply 200 None ''PK''))"
proof -
  let ?p = "example_platform NoReply"
  have f: "file' staged = Some example_file"
    by (simp add: staged_eq)
  have x: "submission_fails ?p (Inl (AxiosError None))"
    by (simp add: submission_fails_def)
  have a: "axios_post (network ?p req) = Inl (AxiosError None)" for req
    by (simp add: axios_post_def example_platform_def)
  let ?q = "example_platform (Reply (example_reply 200 None ''PK''))"
  have d: "dom ?q = NoFault"
    by (simp add: example_platform_def)
  have c: "file' (step (UploadSettled ?q (Inr (example_reply 200 None ''PK''))) staged) \<noteq> file' staged"
    by (simp add: settle_success [OF d] f)
  have n: "\<not> submission_fails ?q (Inr (example_reply 200 None ''PK''))"
    by (simp add: submission_fails_def d)
  show ?thesis
    using failure_keeps_candidate [of ?p "Inl (AxiosError None)" staged staged example_file ?p
        "UploadSettled ?q (Inr (example_reply 200 None ''PK''))"]
      staged_reachable f x a c n
    by (simp add: apiUrl_example example_request_def)
qed

end
